theory Spec2Isabelle
  imports Complex_Main "HOL-Library.Sublist"
begin

section \<open>Data model (schemas.py)\<close>

text \<open>
  \<open>GoalType\<close> and \<open>LanguageCode\<close> are \<open>Literal\<close> types of fixed strings; the colour and
  the insulin risk of a verdict are literals too. Each is a datatype with one constructor per
  literal.
\<close>

datatype GoalType = Balanced | Weight_loss | Muscle_gain | Heart_health | Low_sugar

datatype LanguageCode = En | Hi | Mr | Hinglish

datatype Color = Green | Yellow | Red

datatype Risk = Low | Medium | High

text \<open>
  A nutrient field is \<open>Optional[float]\<close>. The schema layer accepts the two infinities and
  not-a-number in a float field, so a float is a finite value or one of these three. Every
  finite double is a rational number; the finite values are modelled by \<open>rat\<close>, which has
  all of them. The verdict only compares a float with an integer constant, which Python
  does exactly; a comparison with not-a-number is false.
\<close>

datatype pyfloat = Finite rat | PosInf | NegInf | NaN

fun float_le :: "pyfloat \<Rightarrow> int \<Rightarrow> bool" where
  "float_le (Finite r) c = (r \<le> of_int c)"
| "float_le PosInf c = False"
| "float_le NegInf c = True"
| "float_le NaN c = False"

fun float_ge :: "pyfloat \<Rightarrow> int \<Rightarrow> bool" where
  "float_ge (Finite r) c = (of_int c \<le> r)"
| "float_ge PosInf c = True"
| "float_ge NegInf c = False"
| "float_ge NaN c = False"

fun float_gt :: "pyfloat \<Rightarrow> int \<Rightarrow> bool" where
  "float_gt (Finite r) c = (of_int c < r)"
| "float_gt PosInf c = True"
| "float_gt NegInf c = False"
| "float_gt NaN c = False"

record Nutrients =
  calories :: "pyfloat option"
  protein :: "pyfloat option"
  carbs :: "pyfloat option"
  sugar :: "pyfloat option"
  fat :: "pyfloat option"
  sat_fat :: "pyfloat option"
  fiber :: "pyfloat option"
  sodium :: "pyfloat option"

record ScanItem =
  name :: "string option"
  brand :: "string option"
  barcode :: "string option"
  image_url :: "string option"
  ingredients_text :: "string option"
  nutrients :: "Nutrients option"
  processing_level :: "string option"

text \<open>Every field of both records defaults to \<open>None\<close>.\<close>

definition Nutrients_default :: Nutrients where
  "Nutrients_default =
     \<lparr>calories = None, protein = None, carbs = None, sugar = None, fat = None,
      sat_fat = None, fiber = None, sodium = None\<rparr>"

definition ScanItem_default :: ScanItem where
  "ScanItem_default =
     \<lparr>name = None, brand = None, barcode = None, image_url = None,
      ingredients_text = None, nutrients = None, processing_level = None\<rparr>"

record Verdict =
  color :: Color
  score :: int
  explanation :: string
  insulin_risk :: Risk

text \<open>
  The exceptions of the program. \<open>HTTPException\<close> carries its status code; the others are
  the failures of the collaborators (the HTTP client, the JSON decoder, the schema layer)
  and of Python itself (a method or a subscript on a value that has none).
\<close>

datatype exn =
    RequestException
  | JSONDecodeError
  | AttributeError
  | TypeError
  | ValidationError
  | HTTPException nat

text \<open>
  Constructing a \<open>Verdict\<close> validates \<open>score: int = Field(ge=0, le=100)\<close>: a score out of
  the range raises \<open>ValidationError\<close>.
\<close>

definition mk_Verdict :: "Color \<Rightarrow> int \<Rightarrow> string \<Rightarrow> Risk \<Rightarrow> exn + Verdict" where
  "mk_Verdict c s e r =
     (if 0 \<le> s \<and> s \<le> 100
      then Inr \<lparr>color = c, score = s, explanation = e, insulin_risk = r\<rparr>
      else Inl ValidationError)"

section \<open>The verdict engine (main.py, compute\_verdict)\<close>

text \<open>
  \<open>item.nutrients and item.nutrients.f is not None\<close>: a model instance is always truthy, so
  the test holds exactly when the nutrients record is there and its field \<open>f\<close> is.
\<close>

definition nutrient :: "(Nutrients \<Rightarrow> pyfloat option) \<Rightarrow> ScanItem \<Rightarrow> pyfloat option" where
  "nutrient f item = (case nutrients item of None \<Rightarrow> None | Some n \<Rightarrow> f n)"

text \<open>
  Lines 35 to 60: the three \<open>if\<close> statements in sequence, each updating the pair of local
  variables \<open>score\<close> and \<open>insulin_risk\<close>.
\<close>

definition sugar_step :: "GoalType \<Rightarrow> ScanItem \<Rightarrow> int \<times> Risk \<Rightarrow> int \<times> Risk" where
  "sugar_step goal item st =
     (case nutrient sugar item of
        None \<Rightarrow> st
      | Some s \<Rightarrow>
          if goal = Low_sugar \<or> goal = Heart_health then
            (if float_le s 5 then (fst st + 20, Low)
             else if float_le s 10 then (fst st + 0, Medium)
             else (fst st - 25, High))
          else st)"

definition protein_step :: "GoalType \<Rightarrow> ScanItem \<Rightarrow> int \<times> Risk \<Rightarrow> int \<times> Risk" where
  "protein_step goal item st =
     (case nutrient protein item of
        None \<Rightarrow> st
      | Some p \<Rightarrow>
          if goal = Muscle_gain then
            (if float_ge p 20 then (fst st + 15, snd st)
             else if float_ge p 10 then (fst st + 5, snd st)
             else (fst st - 10, snd st))
          else st)"

definition calories_step :: "GoalType \<Rightarrow> ScanItem \<Rightarrow> int \<times> Risk \<Rightarrow> int \<times> Risk" where
  "calories_step goal item st =
     (case nutrient calories item of
        None \<Rightarrow> st
      | Some c \<Rightarrow>
          if goal = Weight_loss then
            (if float_le c 150 then (fst st + 10, snd st)
             else if float_gt c 350 then (fst st - 15, snd st)
             else st)
          else st)"

definition raw_score :: "GoalType \<Rightarrow> ScanItem \<Rightarrow> int \<times> Risk" where
  "raw_score goal item =
     calories_step goal item (protein_step goal item (sugar_step goal item (70, Medium)))"

definition compute_verdict :: "GoalType \<Rightarrow> ScanItem \<Rightarrow> exn + Verdict" where
  "compute_verdict goal item =
     (let (score0, insulin_risk0) = raw_score goal item;
          score1 = max 0 (min 100 score0);
          color1 = (if score1 \<ge> 75 then Green else (if score1 \<ge> 55 then Yellow else Red));
          explanation1 =
            (if color1 = Green then ''Balanced nutrients; aligns well with your selected goal.''
             else if color1 = Yellow then ''Mixed profile; moderation advised based on your goal.''
             else ''High risk factors for your goal; consider safer option.'')
      in mk_Verdict color1 score1 explanation1 insulin_risk0)"

subsection \<open>The reference algorithm of the specification, section 4.1\<close>

text \<open>
  The algorithm as the specification words it, step by step; \<open>compute_verdict\<close> above is
  the code, and the two are compared below.
\<close>

definition spec_sugar_applies :: "GoalType \<Rightarrow> bool" where
  "spec_sugar_applies goal = (goal \<in> {Low_sugar, Heart_health})"

definition spec_sugar_delta :: "GoalType \<Rightarrow> ScanItem \<Rightarrow> int" where
  "spec_sugar_delta goal item =
     (case nutrient sugar item of
        None \<Rightarrow> 0
      | Some s \<Rightarrow>
          if spec_sugar_applies goal
          then (if float_le s 5 then 20 else if float_le s 10 then 0 else - 25)
          else 0)"

definition spec_protein_delta :: "GoalType \<Rightarrow> ScanItem \<Rightarrow> int" where
  "spec_protein_delta goal item =
     (case nutrient protein item of
        None \<Rightarrow> 0
      | Some p \<Rightarrow>
          if goal = Muscle_gain
          then (if float_ge p 20 then 15 else if float_ge p 10 then 5 else - 10)
          else 0)"

definition spec_calories_delta :: "GoalType \<Rightarrow> ScanItem \<Rightarrow> int" where
  "spec_calories_delta goal item =
     (case nutrient calories item of
        None \<Rightarrow> 0
      | Some c \<Rightarrow>
          if goal = Weight_loss
          then (if float_le c 150 then 10 else if float_gt c 350 then - 15 else 0)
          else 0)"

definition spec_score_delta :: "GoalType \<Rightarrow> ScanItem \<Rightarrow> int" where
  "spec_score_delta goal item =
     spec_sugar_delta goal item + spec_protein_delta goal item + spec_calories_delta goal item"

definition spec_risk :: "GoalType \<Rightarrow> ScanItem \<Rightarrow> Risk" where
  "spec_risk goal item =
     (case nutrient sugar item of
        None \<Rightarrow> Medium
      | Some s \<Rightarrow>
          if spec_sugar_applies goal
          then (if float_le s 5 then Low else if float_le s 10 then Medium else High)
          else Medium)"

definition spec_clamp :: "int \<Rightarrow> int" where
  "spec_clamp s = (if s < 0 then 0 else if 100 < s then 100 else s)"

definition spec_color :: "int \<Rightarrow> Color" where
  "spec_color s = (if 75 \<le> s then Green else if 55 \<le> s then Yellow else Red)"

definition spec_explanation :: "Color \<Rightarrow> string" where
  "spec_explanation c =
     (case c of
        Green \<Rightarrow> ''Balanced nutrients; aligns well with your selected goal.''
      | Yellow \<Rightarrow> ''Mixed profile; moderation advised based on your goal.''
      | Red \<Rightarrow> ''High risk factors for your goal; consider safer option.'')"

definition spec_verdict :: "GoalType \<Rightarrow> ScanItem \<Rightarrow> Verdict" where
  "spec_verdict goal item =
     (let s = spec_clamp (70 + spec_score_delta goal item)
      in \<lparr>color = spec_color s, score = s, explanation = spec_explanation (spec_color s),
          insulin_risk = spec_risk goal item\<rparr>)"

text \<open>Absent nutrients: no nutrients record, or a record whose eight fields are all absent.\<close>

definition nutrients_absent :: "ScanItem \<Rightarrow> bool" where
  "nutrients_absent item =
     (case nutrients item of
        None \<Rightarrow> True
      | Some n \<Rightarrow>
          calories n = None \<and> protein n = None \<and> carbs n = None \<and> sugar n = None \<and>
          fat n = None \<and> sat_fat n = None \<and> fiber n = None \<and> sodium n = None)"

section \<open>The allergen detector (main.py, detect\_allergens)\<close>

text \<open>
  Strings are lists of 8-bit characters; a character beyond the ASCII range is the sequence
  of its UTF-8 bytes, and one encoded string occurs in another exactly when it does so
  character by character. \<open>str.lower\<close> belongs to Python, not to the program, and its table
  of cased letters is not reproduced here: it is the parameter \<open>lower\<close> of the detector and
  of the handlers that call it, any function from strings to strings.

  On text of the ASCII range \<open>str.lower\<close> maps each of the letters A..Z to its lower-case
  letter and leaves every other character as it is. \<open>ascii_lower\<close> is that function; it is
  the instance of the parameter at which the examples are evaluated.
\<close>

definition lower_char :: "char \<Rightarrow> char" where
  "lower_char c =
     (case map_of (zip ''ABCDEFGHIJKLMNOPQRSTUVWXYZ'' ''abcdefghijklmnopqrstuvwxyz'') c of
        None \<Rightarrow> c
      | Some d \<Rightarrow> d)"

definition ascii_lower :: "string \<Rightarrow> string" where
  "ascii_lower s = map lower_char s"

text \<open>\<open>a in txt\<close> on strings: \<open>a\<close> starts at some position of \<open>txt\<close>.\<close>

fun str_in :: "string \<Rightarrow> string \<Rightarrow> bool" where
  "str_in a [] = (a = [])"
| "str_in a (c # t) = (prefix a (c # t) \<or> str_in a t)"

text \<open>The \<open>for\<close> loop of lines 81 to 83, with the list \<open>found\<close> as its state.\<close>

fun allergens_loop ::
  "(string \<Rightarrow> string) \<Rightarrow> string \<Rightarrow> string list \<Rightarrow> string list \<Rightarrow> string list" where
  "allergens_loop lower txt [] found = found"
| "allergens_loop lower txt (a # as) found =
     allergens_loop lower txt as (if str_in (lower a) txt then found @ [a] else found)"

definition detect_allergens ::
  "(string \<Rightarrow> string) \<Rightarrow> string option \<Rightarrow> string list \<Rightarrow> string list" where
  "detect_allergens lower ingredients user_allergies =
     (case ingredients of
        None \<Rightarrow> []
      | Some t \<Rightarrow>
          if t = [] then []
          else allergens_loop lower (lower t) user_allergies [])"

section \<open>Decoded JSON and the schema layer\<close>

text \<open>
  What \<open>r.json()\<close> returns: a Python value built from \<open>None\<close>, booleans, integers, floats,
  strings, lists and dictionaries with string keys. A dictionary is an association list
  read by \<open>map_of\<close>: the first pair of a key is the entry the dictionary holds.
\<close>

datatype pyval =
    PNone
  | PBool bool
  | PInt int
  | PFloat pyfloat
  | PStr string
  | PList "pyval list"
  | PDict "(string \<times> pyval) list"

text \<open>Truthiness, as \<open>or\<close> tests it.\<close>

fun truthy :: "pyval \<Rightarrow> bool" where
  "truthy PNone = False"
| "truthy (PBool b) = b"
| "truthy (PInt i) = (i \<noteq> 0)"
| "truthy (PFloat f) = (f \<noteq> Finite 0)"
| "truthy (PStr s) = (s \<noteq> [])"
| "truthy (PList xs) = (xs \<noteq> [])"
| "truthy (PDict d) = (d \<noteq> [])"

definition py_or :: "pyval \<Rightarrow> pyval \<Rightarrow> pyval" where
  "py_or a b = (if truthy a then a else b)"

text \<open>\<open>v == 1\<close>: the integer 1, the float 1.0 and \<open>True\<close> are equal to 1, nothing else is.\<close>

fun py_eq_1 :: "pyval \<Rightarrow> bool" where
  "py_eq_1 (PInt i) = (i = 1)"
| "py_eq_1 (PFloat f) = (f = Finite 1)"
| "py_eq_1 (PBool b) = b"
| "py_eq_1 PNone = False"
| "py_eq_1 (PStr s) = False"
| "py_eq_1 (PList xs) = False"
| "py_eq_1 (PDict d) = False"

text \<open>\<open>d.get(k, default)\<close> on a dictionary, and on any value: only a dictionary has \<open>get\<close>.\<close>

definition dget :: "(string \<times> pyval) list \<Rightarrow> string \<Rightarrow> pyval \<Rightarrow> pyval" where
  "dget d k dflt = (case map_of d k of None \<Rightarrow> dflt | Some v \<Rightarrow> v)"

definition py_get :: "pyval \<Rightarrow> string \<Rightarrow> pyval \<Rightarrow> exn + pyval" where
  "py_get v k dflt = (case v of PDict d \<Rightarrow> Inr (dget d k dflt) | _ \<Rightarrow> Inl AttributeError)"

text \<open>Sequencing of steps that may raise: the first exception ends the sequence.\<close>

definition bind :: "exn + 'a \<Rightarrow> ('a \<Rightarrow> exn + 'b) \<Rightarrow> exn + 'b" where
  "bind m f = (case m of Inl e \<Rightarrow> Inl e | Inr x \<Rightarrow> f x)"

text \<open>
  The schema layer validates the arguments of a model's constructor (the program uses
  \<open>model_dump\<close>, so it is version 2 of the library, in its default lax mode). A string field
  takes a string and nothing else; an optional field takes \<open>None\<close>. A float field takes a
  float, an integer (small integers are floats exactly; the rounding of integers beyond
  53 bits is not modelled), a boolean (as 1.0 or 0.0) and a string that parses as a float.
  The parser of such strings belongs to the library and is the parameter \<open>fs\<close>.
\<close>

fun req_str :: "pyval \<Rightarrow> exn + string" where
  "req_str (PStr s) = Inr s"
| "req_str PNone = Inl ValidationError"
| "req_str (PBool b) = Inl ValidationError"
| "req_str (PInt i) = Inl ValidationError"
| "req_str (PFloat f) = Inl ValidationError"
| "req_str (PList xs) = Inl ValidationError"
| "req_str (PDict d) = Inl ValidationError"

fun opt_str :: "pyval \<Rightarrow> exn + string option" where
  "opt_str PNone = Inr None"
| "opt_str (PStr s) = Inr (Some s)"
| "opt_str (PBool b) = Inl ValidationError"
| "opt_str (PInt i) = Inl ValidationError"
| "opt_str (PFloat f) = Inl ValidationError"
| "opt_str (PList xs) = Inl ValidationError"
| "opt_str (PDict d) = Inl ValidationError"

fun opt_float :: "(string \<Rightarrow> pyfloat option) \<Rightarrow> pyval \<Rightarrow> exn + pyfloat option" where
  "opt_float fs PNone = Inr None"
| "opt_float fs (PFloat f) = Inr (Some f)"
| "opt_float fs (PInt i) = Inr (Some (Finite (of_int i)))"
| "opt_float fs (PBool b) = Inr (Some (Finite (if b then 1 else 0)))"
| "opt_float fs (PStr s) = (case fs s of None \<Rightarrow> Inl ValidationError | Some f \<Rightarrow> Inr (Some f))"
| "opt_float fs (PList xs) = Inl ValidationError"
| "opt_float fs (PDict d) = Inl ValidationError"

text \<open>
  \<open>Nutrients\<close> from a dictionary: each of the eight fields is read under its own name, an
  absent key leaves the field at its default \<open>None\<close>, other keys are ignored.
\<close>

definition mk_Nutrients :: "(string \<Rightarrow> pyfloat option) \<Rightarrow> (string \<times> pyval) list \<Rightarrow> exn + Nutrients" where
  "mk_Nutrients fs d =
     bind (opt_float fs (dget d ''calories'' PNone)) (\<lambda>v1.
     bind (opt_float fs (dget d ''protein'' PNone)) (\<lambda>v2.
     bind (opt_float fs (dget d ''carbs'' PNone)) (\<lambda>v3.
     bind (opt_float fs (dget d ''sugar'' PNone)) (\<lambda>v4.
     bind (opt_float fs (dget d ''fat'' PNone)) (\<lambda>v5.
     bind (opt_float fs (dget d ''sat_fat'' PNone)) (\<lambda>v6.
     bind (opt_float fs (dget d ''fiber'' PNone)) (\<lambda>v7.
     bind (opt_float fs (dget d ''sodium'' PNone)) (\<lambda>v8.
     Inr \<lparr>calories = v1, protein = v2, carbs = v3, sugar = v4, fat = v5,
          sat_fat = v6, fiber = v7, sodium = v8\<rparr>))))))))"

fun opt_Nutrients :: "(string \<Rightarrow> pyfloat option) \<Rightarrow> pyval \<Rightarrow> exn + Nutrients option" where
  "opt_Nutrients fs PNone = Inr None"
| "opt_Nutrients fs (PDict d) = bind (mk_Nutrients fs d) (\<lambda>n. Inr (Some n))"
| "opt_Nutrients fs (PBool b) = Inl ValidationError"
| "opt_Nutrients fs (PInt i) = Inl ValidationError"
| "opt_Nutrients fs (PFloat f) = Inl ValidationError"
| "opt_Nutrients fs (PStr s) = Inl ValidationError"
| "opt_Nutrients fs (PList xs) = Inl ValidationError"

text \<open>The constructor \<open>ScanItem(...)\<close>, its arguments in the order of the fields.\<close>

definition mk_ScanItem ::
  "(string \<Rightarrow> pyfloat option) \<Rightarrow> pyval \<Rightarrow> pyval \<Rightarrow> pyval \<Rightarrow> pyval \<Rightarrow> pyval \<Rightarrow> pyval \<Rightarrow> pyval
     \<Rightarrow> exn + ScanItem" where
  "mk_ScanItem fs a_name a_brand a_barcode a_image_url a_ingredients a_nutrients a_level =
     bind (opt_str a_name) (\<lambda>v1.
     bind (opt_str a_brand) (\<lambda>v2.
     bind (opt_str a_barcode) (\<lambda>v3.
     bind (opt_str a_image_url) (\<lambda>v4.
     bind (opt_str a_ingredients) (\<lambda>v5.
     bind (opt_Nutrients fs a_nutrients) (\<lambda>v6.
     bind (opt_str a_level) (\<lambda>v7.
     Inr \<lparr>name = v1, brand = v2, barcode = v3, image_url = v4, ingredients_text = v5,
          nutrients = v6, processing_level = v7\<rparr>)))))))"

record Alternative =
  alt_name :: string
  alt_brand :: "string option"
  alt_image_url :: "string option"
  alt_barcode :: "string option"

text \<open>
  The outcome of an outbound call \<open>requests.get(url, timeout=6)\<close> followed by \<open>.json()\<close>:
  the request fails, the body is not JSON, or the body decodes to a value. The status code of
  the response is not looked at.
\<close>

datatype fetch = ConnectionFailed | InvalidJson | Body pyval

section \<open>The alternative finder (main.py, find\_alternatives)\<close>

text \<open>\<open>item.brand or item.name or "healthy"\<close>: an absent or empty string is falsy.\<close>

definition str_or :: "string option \<Rightarrow> string \<Rightarrow> string" where
  "str_or a b = (case a of None \<Rightarrow> b | Some s \<Rightarrow> if s = [] then b else s)"

definition search_query :: "ScanItem \<Rightarrow> string" where
  "search_query item = str_or (brand item) (str_or (name item) ''healthy'')"

text \<open>
  \<open>Alternative(name=p.get("product_name") or "Alternative", ...)\<close> for one entry \<open>p\<close> of the
  result list: an entry that is no dictionary has no \<open>get\<close>, and the constructor validates
  its four arguments.
\<close>

definition mk_Alternative :: "pyval \<Rightarrow> exn + Alternative" where
  "mk_Alternative p =
     (case p of
        PDict d \<Rightarrow>
          bind (req_str (py_or (dget d ''product_name'' PNone) (PStr ''Alternative''))) (\<lambda>v1.
          bind (opt_str (dget d ''brands'' PNone)) (\<lambda>v2.
          bind (opt_str (py_or (dget d ''image_front_small_url'' PNone)
                               (dget d ''image_url'' PNone))) (\<lambda>v3.
          bind (opt_str (dget d ''code'' PNone)) (\<lambda>v4.
          Inr \<lparr>alt_name = v1, alt_brand = v2, alt_image_url = v3, alt_barcode = v4\<rparr>))))
      | _ \<Rightarrow> Inl AttributeError)"

text \<open>
  \<open>x[:5]\<close>: the first five elements of a list, the first five characters of a string (each
  a string of length one when iterated); no other decoded value can be sliced.
\<close>

definition slice5 :: "pyval \<Rightarrow> exn + pyval list" where
  "slice5 v =
     (case v of
        PList xs \<Rightarrow> Inr (take 5 xs)
      | PStr s \<Rightarrow> Inr (map (\<lambda>c. PStr [c]) (take 5 s))
      | _ \<Rightarrow> Inl TypeError)"

text \<open>
  The \<open>for\<close> loop of lines 94 to 100. Its state is the list \<open>results\<close>; an exception leaves
  the loop with the results appended so far.
\<close>

fun alternatives_loop :: "pyval list \<Rightarrow> Alternative list \<Rightarrow> Alternative list \<times> exn option" where
  "alternatives_loop [] results = (results, None)"
| "alternatives_loop (p # ps) results =
     (case mk_Alternative p of
        Inl e \<Rightarrow> (results, Some e)
      | Inr a \<Rightarrow> alternatives_loop ps (results @ [a]))"

text \<open>
  The body of the \<open>try\<close>: the value of \<open>results\<close> when it ends, and the exception that ended
  it, if one did. The search collaborator is a function of the query the URL is built from.
\<close>

definition find_alternatives_try ::
  "(string \<Rightarrow> fetch) \<Rightarrow> ScanItem \<Rightarrow> GoalType \<Rightarrow> Alternative list \<times> exn option" where
  "find_alternatives_try search item goal =
     (case search (search_query item) of
        ConnectionFailed \<Rightarrow> ([], Some RequestException)
      | InvalidJson \<Rightarrow> ([], Some JSONDecodeError)
      | Body data \<Rightarrow>
          (case py_get data ''products'' (PList []) of
             Inl e \<Rightarrow> ([], Some e)
           | Inr v \<Rightarrow>
               (case slice5 v of
                  Inl e \<Rightarrow> ([], Some e)
                | Inr ps \<Rightarrow> alternatives_loop ps [])))"

text \<open>\<open>except Exception: pass\<close>, then \<open>return results\<close>.\<close>

definition find_alternatives ::
  "(string \<Rightarrow> fetch) \<Rightarrow> ScanItem \<Rightarrow> GoalType \<Rightarrow> exn + Alternative list" where
  "find_alternatives search item goal =
     (case find_alternatives_try search item goal of (results, e) \<Rightarrow> Inr results)"


section \<open>The barcode lookup (main.py, barcode\_lookup)\<close>

text \<open>
  The body of the \<open>try\<close>, lines 137 to 160. The product collaborator is a function of the
  barcode the URL is built from.
\<close>

definition barcode_lookup_try ::
  "(string \<Rightarrow> pyfloat option) \<Rightarrow> (string \<Rightarrow> fetch) \<Rightarrow> string \<Rightarrow> exn + ScanItem" where
  "barcode_lookup_try fs api code =
     (case api code of
        ConnectionFailed \<Rightarrow> Inl RequestException
      | InvalidJson \<Rightarrow> Inl JSONDecodeError
      | Body data \<Rightarrow>
          bind (py_get data ''status'' PNone) (\<lambda>status.
          if \<not> py_eq_1 status then Inl (HTTPException 404)
          else
            bind (py_get data ''product'' (PDict [])) (\<lambda>p.
            bind (py_get p ''product_name'' PNone) (\<lambda>a_name.
            bind (py_get p ''brands'' PNone) (\<lambda>a_brand.
            bind (py_get p ''code'' PNone) (\<lambda>a_barcode.
            bind (py_get p ''image_front_small_url'' PNone) (\<lambda>img1.
            bind (py_get p ''image_url'' PNone) (\<lambda>img2.
            bind (py_get p ''ingredients_text'' PNone) (\<lambda>a_ingredients.
            bind (py_get p ''nutriments'' (PDict [])) (\<lambda>nm.
            bind (py_get nm ''energy-kcal_100g'' PNone) (\<lambda>n1.
            bind (py_get nm ''proteins_100g'' PNone) (\<lambda>n2.
            bind (py_get nm ''carbohydrates_100g'' PNone) (\<lambda>n3.
            bind (py_get nm ''sugars_100g'' PNone) (\<lambda>n4.
            bind (py_get nm ''fat_100g'' PNone) (\<lambda>n5.
            bind (py_get nm ''saturated-fat_100g'' PNone) (\<lambda>n6.
            bind (py_get nm ''fiber_100g'' PNone) (\<lambda>n7.
            bind (py_get nm ''sodium_100g'' PNone) (\<lambda>n8.
            bind (py_get p ''nova_group'' PNone) (\<lambda>a_level.
            mk_ScanItem fs a_name a_brand a_barcode (py_or img1 img2) a_ingredients
              (PDict [(''calories'', n1), (''protein'', n2), (''carbs'', n3), (''sugar'', n4),
                      (''fat'', n5), (''sat_fat'', n6), (''fiber'', n7), (''sodium'', n8)])
              a_level)))))))))))))))))))"

text \<open>
  The two handlers of the \<open>try\<close>: an \<open>HTTPException\<close> is raised again as it is, every other
  exception becomes an \<open>HTTPException\<close> with status 500.
\<close>

definition barcode_lookup ::
  "(string \<Rightarrow> pyfloat option) \<Rightarrow> (string \<Rightarrow> fetch) \<Rightarrow> string \<Rightarrow> exn + ScanItem" where
  "barcode_lookup fs api code =
     (case barcode_lookup_try fs api code of
        Inl (HTTPException c) \<Rightarrow> Inl (HTTPException c)
      | Inl _ \<Rightarrow> Inl (HTTPException 500)
      | Inr item \<Rightarrow> Inr item)"

section \<open>The document store and the request handlers\<close>

record UserProfile =
  up_user_id :: string
  up_name :: "string option"
  up_goal :: GoalType
  allergies :: "string list"
  sensitivities :: "string list"
  language :: LanguageCode

text \<open>\<open>UserProfile(user_id=u)\<close>: every other field takes its default.\<close>

definition UserProfile_default :: "string \<Rightarrow> UserProfile" where
  "UserProfile_default u =
     \<lparr>up_user_id = u, up_name = None, up_goal = Balanced, allergies = [],
      sensitivities = [], language = En\<rparr>"

record ScanRecord =
  sr_user_id :: string
  sr_goal :: GoalType
  sr_item :: ScanItem
  sr_verdict :: Verdict
  allergens_found :: "string list"
  alternatives :: "Alternative list"

datatype document = ProfileDoc UserProfile | ScanDoc ScanRecord

fun doc_user_id :: "document \<Rightarrow> string" where
  "doc_user_id (ProfileDoc p) = up_user_id p"
| "doc_user_id (ScanDoc r) = sr_user_id r"

text \<open>
  Modelled from the spec: the module \<open>database\<close> (\<open>create_document\<close>, \<open>get_documents\<close>) is
  not among the sources. Section 6 gives the store as named collections of documents with
  \<open>create_document(collection, record) -> id\<close> and
  \<open>get_documents(collection, filter, limit) -> list\<close>. A collection is the list of its
  documents in the order of their creation, each with its identifier; \<open>create_document\<close>
  appends the record under a new identifier and returns it; \<open>get_documents\<close> returns the
  first \<open>limit\<close> documents of the collection that satisfy the filter. The identifier a
  document is stored under and its serialised form \<open>str(doc["_id"])\<close> are one value here.
\<close>

record store =
  collections :: "string \<Rightarrow> (nat \<times> document) list"
  next_id :: nat

definition create_document :: "string \<Rightarrow> document \<Rightarrow> store \<Rightarrow> nat \<times> store" where
  "create_document coll doc s =
     (next_id s,
      s\<lparr>collections := (collections s)(coll := collections s coll @ [(next_id s, doc)]),
        next_id := Suc (next_id s)\<rparr>)"

definition get_documents ::
  "string \<Rightarrow> (document \<Rightarrow> bool) \<Rightarrow> nat \<Rightarrow> store \<Rightarrow> (nat \<times> document) list" where
  "get_documents coll flt limit s = take limit (filter (\<lambda>d. flt (snd d)) (collections s coll))"

text \<open>
  \<open>get_or_create_profile\<close> (lines 188 to 197): the response is a document with its
  identifier, either the stored one or the one just created; the store is the second
  component of the result.
\<close>

definition get_or_create_profile :: "string \<Rightarrow> store \<Rightarrow> (nat \<times> document) \<times> store" where
  "get_or_create_profile uid s =
     (case get_documents ''userprofile'' (\<lambda>d. doc_user_id d = uid) 1 s of
        doc # rest \<Rightarrow> (doc, s)
      | [] \<Rightarrow>
          (let profile = UserProfile_default uid;
               (new_id, s') = create_document ''userprofile'' (ProfileDoc profile) s
           in ((new_id, ProfileDoc profile), s')))"

record VerdictRequest =
  req_user_id :: string
  req_goal :: GoalType
  req_item :: ScanItem

record VerdictResponse =
  scan_id :: nat
  verdict :: Verdict
  allergens :: "string list"
  resp_alternatives :: "Alternative list"

text \<open>\<open>generate_verdict\<close> (lines 167 to 182).\<close>

definition generate_verdict ::
  "(string \<Rightarrow> string) \<Rightarrow> (string \<Rightarrow> fetch) \<Rightarrow> VerdictRequest \<Rightarrow> store
     \<Rightarrow> exn + (VerdictResponse \<times> store)" where
  "generate_verdict lower search req s =
     bind (compute_verdict (req_goal req) (req_item req)) (\<lambda>v.
     let found = detect_allergens lower (ingredients_text (req_item req)) [] in
     bind (find_alternatives search (req_item req) (req_goal req)) (\<lambda>alts.
     let rec = \<lparr>sr_user_id = req_user_id req, sr_goal = req_goal req, sr_item = req_item req,
                sr_verdict = v, allergens_found = found, alternatives = alts\<rparr>;
         (new_id, s') = create_document ''scanrecord'' (ScanDoc rec) s
     in Inr (\<lparr>scan_id = new_id, verdict = v, allergens = found, resp_alternatives = alts\<rparr>,
             s')))"

record ScanResponse =
  sc_scan_id :: nat
  sc_item :: ScanItem
  sc_verdict :: Verdict
  sc_allergens :: "string list"
  sc_alternatives :: "Alternative list"

text \<open>
  \<open>scan_image\<close> (lines 201 to 210). The uploaded file is the argument \<open>file\<close>, of any type.
\<close>

definition scan_image ::
  "(string \<Rightarrow> string) \<Rightarrow> (string \<Rightarrow> pyfloat option) \<Rightarrow> (string \<Rightarrow> fetch) \<Rightarrow> string \<Rightarrow> GoalType
     \<Rightarrow> 'f \<Rightarrow> store \<Rightarrow> exn + (ScanResponse \<times> store)" where
  "scan_image lower fs search user_id goal file s =
     bind (mk_ScanItem fs (PStr ''Detected Meal'') PNone PNone PNone
             (PStr ''rice, chicken, spices'')
             (PDict [(''calories'', PInt 250), (''protein'', PInt 18), (''carbs'', PInt 30),
                     (''sugar'', PInt 2)])
             PNone) (\<lambda>item.
     bind (compute_verdict goal item) (\<lambda>v.
     let found = detect_allergens lower (ingredients_text item) [] in
     bind (find_alternatives search item goal) (\<lambda>alts.
     let rec = \<lparr>sr_user_id = user_id, sr_goal = goal, sr_item = item, sr_verdict = v,
                allergens_found = found, alternatives = alts\<rparr>;
         (new_id, s') = create_document ''scanrecord'' (ScanDoc rec) s
     in Inr (\<lparr>sc_scan_id = new_id, sc_item = item, sc_verdict = v, sc_allergens = found,
              sc_alternatives = alts\<rparr>, s'))))"

text \<open>The item the image scan is hardcoded to.\<close>

definition stub_item :: ScanItem where
  "stub_item =
     \<lparr>name = Some ''Detected Meal'', brand = None, barcode = None, image_url = None,
      ingredients_text = Some ''rice, chicken, spices'',
      nutrients =
        Some \<lparr>calories = Some (Finite 250), protein = Some (Finite 18),
              carbs = Some (Finite 30), sugar = Some (Finite 2), fat = None, sat_fat = None,
              fiber = None, sodium = None\<rparr>,
      processing_level = None\<rparr>"

section \<open>Properties of the verdict engine\<close>

lemma raw_score_cases:
  "fst (raw_score goal item) \<in> {45, 55, 60, 70, 75, 80, 85, 90}"
  by (cases goal)
     (auto simp: raw_score_def sugar_step_def protein_step_def calories_step_def
           split: option.splits)

lemma raw_score_bounds: "45 \<le> fst (raw_score goal item) \<and> fst (raw_score goal item) \<le> 90"
  using raw_score_cases [of goal item] by auto

lemma raw_score_delta: "fst (raw_score goal item) = 70 + spec_score_delta goal item"
  by (cases goal)
     (auto simp: raw_score_def sugar_step_def protein_step_def calories_step_def
                 spec_score_delta_def spec_sugar_delta_def spec_protein_delta_def
                 spec_calories_delta_def spec_sugar_applies_def
           split: option.splits)

lemma raw_score_risk: "snd (raw_score goal item) = spec_risk goal item"
  by (cases goal)
     (auto simp: raw_score_def sugar_step_def protein_step_def calories_step_def
                 spec_risk_def spec_sugar_applies_def
           split: option.splits)

lemma compute_verdict_unfold:
  "compute_verdict goal item =
     Inr \<lparr>color = spec_color (fst (raw_score goal item)),
          score = fst (raw_score goal item),
          explanation = spec_explanation (spec_color (fst (raw_score goal item))),
          insulin_risk = snd (raw_score goal item)\<rparr>"
proof -
  obtain s r where sr: "raw_score goal item = (s, r)"
    by (cases "raw_score goal item")
  from raw_score_bounds [of goal item] sr have b: "45 \<le> s" "s \<le> 90"
    by simp_all
  then have clamp: "max 0 (min 100 s) = s"
    by simp
  from b show ?thesis
    by (simp add: compute_verdict_def sr clamp mk_Verdict_def spec_color_def
                  spec_explanation_def)
qed

text \<open>
  C1. For every goal and every item, \<open>compute_verdict\<close> returns the verdict of the
  reference algorithm of section 4.1 of the specification: base score 70 and risk medium,
  the sugar adjustment for the goals low_sugar and heart_health, the protein adjustment for
  muscle_gain, the calorie adjustment for weight_loss, the clamp to 0..100, the colour by
  the fixed thresholds, and the insulin risk as the sugar step left it.
\<close>

theorem compute_verdict_follows_reference:
  "compute_verdict goal item = Inr (spec_verdict goal item)"
proof -
  have b: "45 \<le> fst (raw_score goal item)" "fst (raw_score goal item) \<le> 90"
    using raw_score_bounds [of goal item] by simp_all
  have "spec_clamp (70 + spec_score_delta goal item) = fst (raw_score goal item)"
    using b by (simp add: spec_clamp_def raw_score_delta [symmetric])
  then show ?thesis
    by (simp add: compute_verdict_unfold spec_verdict_def Let_def raw_score_risk)
qed

lemma steps_exclusive:
  "(sugar_step goal item = id \<and> protein_step goal item = id) \<or>
   (sugar_step goal item = id \<and> calories_step goal item = id) \<or>
   (protein_step goal item = id \<and> calories_step goal item = id)"
  by (cases goal)
     (auto simp: fun_eq_iff sugar_step_def protein_step_def calories_step_def
           split: option.splits)

text \<open>
  C2. \<open>compute_verdict\<close> is a function of its two arguments that returns a verdict and
  never raises; when the item has no nutrients record, or a record with every field absent,
  the verdict has score 70, colour yellow and insulin risk medium, for every goal.
\<close>

theorem compute_verdict_absent_nutrients:
  assumes "nutrients_absent item"
  shows "compute_verdict goal item =
           Inr \<lparr>color = Yellow, score = 70,
                explanation = ''Mixed profile; moderation advised based on your goal.'',
                insulin_risk = Medium\<rparr>"
proof -
  from assms have "nutrient sugar item = None" "nutrient protein item = None"
    "nutrient calories item = None"
    by (auto simp: nutrients_absent_def nutrient_def split: option.splits)
  then have "raw_score goal item = (70, Medium)"
    by (simp add: raw_score_def sugar_step_def protein_step_def calories_step_def)
  then show ?thesis
    by (simp add: compute_verdict_unfold spec_color_def spec_explanation_def)
qed

theorem compute_verdict_absent_nutrients_witness:
  "nutrients_absent ScanItem_default \<and>
   nutrients_absent (ScanItem_default\<lparr>nutrients := Some Nutrients_default\<rparr>) \<and>
   compute_verdict Weight_loss ScanItem_default =
     Inr \<lparr>color = Yellow, score = 70,
          explanation = ''Mixed profile; moderation advised based on your goal.'',
          insulin_risk = Medium\<rparr> \<and>
   compute_verdict Low_sugar (ScanItem_default\<lparr>nutrients := Some Nutrients_default\<rparr>) =
     Inr \<lparr>color = Yellow, score = 70,
          explanation = ''Mixed profile; moderation advised based on your goal.'',
          insulin_risk = Medium\<rparr>"
proof -
  have a: "nutrients_absent ScanItem_default"
    by (simp add: nutrients_absent_def ScanItem_default_def)
  have b: "nutrients_absent (ScanItem_default\<lparr>nutrients := Some Nutrients_default\<rparr>)"
    by (simp add: nutrients_absent_def ScanItem_default_def Nutrients_default_def)
  show ?thesis
    using a b compute_verdict_absent_nutrients [OF a, of Weight_loss]
      compute_verdict_absent_nutrients [OF b, of Low_sugar]
    by simp
qed

text \<open>
  C3. For every goal and every item, \<open>compute_verdict\<close> returns a verdict whose score
  lies in 0..100 and whose colour is fixed by the score: green from 75, yellow from 55 below
  75, red below 55.
\<close>

theorem compute_verdict_score_color:
  "\<exists>v. compute_verdict goal item = Inr v \<and> 0 \<le> score v \<and> score v \<le> 100 \<and>
       (color v = Green) = (75 \<le> score v) \<and>
       (color v = Yellow) = (55 \<le> score v \<and> score v < 75) \<and>
       (color v = Red) = (score v < 55)"
  using raw_score_bounds [of goal item]
  by (simp add: compute_verdict_unfold spec_color_def)

text \<open>
  C10. For every goal and every item the score before the clamp lies in 45..90: of the
  three conditional steps at most one changes anything, since each asks for a different
  goal. So the clamp to 0..100 leaves the score as it is, and the returned score lies in
  45..90.
\<close>

theorem compute_verdict_unclamped_range:
  "((sugar_step goal item = id \<and> protein_step goal item = id) \<or>
    (sugar_step goal item = id \<and> calories_step goal item = id) \<or>
    (protein_step goal item = id \<and> calories_step goal item = id)) \<and>
   45 \<le> fst (raw_score goal item) \<and> fst (raw_score goal item) \<le> 90 \<and>
   max 0 (min 100 (fst (raw_score goal item))) = fst (raw_score goal item) \<and>
   (\<exists>v. compute_verdict goal item = Inr v \<and> score v = fst (raw_score goal item) \<and>
        45 \<le> score v \<and> score v \<le> 90)"
  using raw_score_bounds [of goal item] steps_exclusive [of goal item]
  by (simp add: compute_verdict_unfold)

section \<open>Properties of the allergen detector and of the handlers\<close>

lemma str_in_sublist: "str_in a t = (\<exists>ps ss. t = ps @ a @ ss)"
proof (induction t)
  case Nil
  then show ?case by auto
next
  case (Cons c t)
  have "str_in a (c # t) = (prefix a (c # t) \<or> sublist a t)"
    using Cons by (simp add: sublist_def)
  also have "\<dots> = sublist a (c # t)"
    by (simp add: sublist_Cons_right)
  finally show ?case by (simp add: sublist_def)
qed

lemma allergens_loop_filter:
  "allergens_loop lower txt as found = found @ filter (\<lambda>a. str_in (lower a) txt) as"
  by (induction as arbitrary: found) auto

lemma detect_allergens_no_allergies: "detect_allergens lower txt [] = []"
  by (simp add: detect_allergens_def split: option.splits)

text \<open>
  C4. Whatever function \<open>str.lower\<close> is, \<open>detect_allergens\<close> returns the allergy terms
  whose lower-cased form occurs in the lower-cased ingredients text as a contiguous
  substring, in the order of the allergy list; with the text absent or empty it returns the
  empty list. So \<open>detect_allergens(None, ["peanut"])\<close> is empty, and since lower-casing
  leaves \<open>contains peanut oil\<close> as it is and turns \<open>Peanut\<close> into \<open>peanut\<close>,
  \<open>detect_allergens("contains peanut oil", ["Peanut"])\<close> is \<open>["Peanut"]\<close>.
\<close>

theorem detect_allergens_substring_matches:
  "detect_allergens lower None user_allergies = [] \<and>
   detect_allergens lower (Some []) user_allergies = [] \<and>
   detect_allergens lower (Some (c # t)) user_allergies =
     filter (\<lambda>a. \<exists>ps ss. lower (c # t) = ps @ lower a @ ss) user_allergies \<and>
   detect_allergens lower None [''peanut''] = [] \<and>
   (lower ''contains peanut oil'' = ''contains peanut oil'' \<and> lower ''Peanut'' = ''peanut'' \<longrightarrow>
      detect_allergens lower (Some ''contains peanut oil'') [''Peanut''] = [''Peanut''])"
proof -
  have "detect_allergens lower (Some (c # t)) user_allergies =
     filter (\<lambda>a. \<exists>ps ss. lower (c # t) = ps @ lower a @ ss) user_allergies"
    by (simp add: detect_allergens_def allergens_loop_filter str_in_sublist)
  moreover have "detect_allergens lower (Some ''contains peanut oil'') [''Peanut''] = [''Peanut'']"
    if "lower ''contains peanut oil'' = ''contains peanut oil''" and "lower ''Peanut'' = ''peanut''"
    using that by (simp add: detect_allergens_def)
  ultimately show ?thesis
    by (simp add: detect_allergens_def)
qed

theorem detect_allergens_substring_matches_witness:
  "ascii_lower ''contains peanut oil'' = ''contains peanut oil'' \<and>
   ascii_lower ''Peanut'' = ''peanut'' \<and>
   detect_allergens ascii_lower (Some ''contains peanut oil'') [''Peanut''] = [''Peanut''] \<and>
   detect_allergens ascii_lower (Some ''Contains PEANUT oil, MILK'')
     [''Peanut'', ''egg'', ''milk''] = [''Peanut'', ''milk'']"
proof -
  have h1: "ascii_lower ''contains peanut oil'' = ''contains peanut oil''"
    by (simp add: ascii_lower_def lower_char_def)
  have h2: "ascii_lower ''Peanut'' = ''peanut''"
    by (simp add: ascii_lower_def lower_char_def)
  have c1: "detect_allergens ascii_lower (Some ''contains peanut oil'') [''Peanut''] =
      [''Peanut'']"
    using detect_allergens_substring_matches [of ascii_lower "[]"] h1 h2 by blast
  have "detect_allergens ascii_lower (Some ''Contains PEANUT oil, MILK'')
      [''Peanut'', ''egg'', ''milk''] =
    filter (\<lambda>a. \<exists>ps ss. ascii_lower ''Contains PEANUT oil, MILK'' = ps @ ascii_lower a @ ss)
      [''Peanut'', ''egg'', ''milk'']"
    using detect_allergens_substring_matches
      [of ascii_lower "[''Peanut'', ''egg'', ''milk'']" "CHR ''C''" "''ontains PEANUT oil, MILK''"]
    by blast
  then have c2: "detect_allergens ascii_lower (Some ''Contains PEANUT oil, MILK'')
      [''Peanut'', ''egg'', ''milk''] = [''Peanut'', ''milk'']"
    by (simp add: str_in_sublist [symmetric] ascii_lower_def lower_char_def)
  from h1 h2 c1 c2 show ?thesis
    by simp
qed

lemma find_alternatives_Inr:
  "find_alternatives search item goal = Inr (fst (find_alternatives_try search item goal))"
  by (simp add: find_alternatives_def split: prod.splits)

text \<open>
  C7. For every request, store, search collaborator and lower-casing function the verdict
  handler returns a response; it calls the allergen detector with the empty allergy list,
  so the allergens of the response and the \<open>allergens_found\<close> of the record it appends to
  the collection \<open>scanrecord\<close> are empty, whatever the ingredients text and whatever the
  store holds.
\<close>

theorem generate_verdict_no_allergens:
  "\<exists>resp s' r.
     generate_verdict lower search req s = Inr (resp, s') \<and>
     allergens resp = [] \<and>
     detect_allergens lower (ingredients_text (req_item req)) [] = [] \<and>
     collections s' ''scanrecord'' = collections s ''scanrecord'' @ [(scan_id resp, ScanDoc r)] \<and>
     sr_user_id r = req_user_id req \<and> sr_item r = req_item req \<and>
     allergens_found r = []"
  by (simp add: generate_verdict_def bind_def compute_verdict_unfold find_alternatives_Inr
                detect_allergens_no_allergies create_document_def Let_def)

lemma stub_item_valid:
  "mk_ScanItem fs (PStr ''Detected Meal'') PNone PNone PNone
             (PStr ''rice, chicken, spices'')
             (PDict [(''calories'', PInt 250), (''protein'', PInt 18), (''carbs'', PInt 30),
                     (''sugar'', PInt 2)])
             PNone = Inr stub_item"
  by (simp add: mk_ScanItem_def mk_Nutrients_def bind_def dget_def stub_item_def)

lemma scan_image_unfold:
  "scan_image lower fs search user_id goal file s =
     (let v = \<lparr>color = spec_color (fst (raw_score goal stub_item)),
          score = fst (raw_score goal stub_item),
          explanation = spec_explanation (spec_color (fst (raw_score goal stub_item))),
          insulin_risk = snd (raw_score goal stub_item)\<rparr>;
          alts = fst (find_alternatives_try search stub_item goal)
      in Inr (\<lparr>sc_scan_id = next_id s, sc_item = stub_item, sc_verdict = v, sc_allergens = [],
               sc_alternatives = alts\<rparr>,
              snd (create_document ''scanrecord''
                (ScanDoc \<lparr>sr_user_id = user_id, sr_goal = goal, sr_item = stub_item, sr_verdict = v,
                  allergens_found = [], alternatives = alts\<rparr>) s)))"
  by (simp add: scan_image_def stub_item_valid bind_def compute_verdict_unfold
                find_alternatives_Inr detect_allergens_no_allergies create_document_def Let_def)

text \<open>
  C9. The image scan handler does not read the uploaded file: two calls that differ in the
  file only return the same result, and for any two calls with the same goal (whatever the
  file, the store and the collaborators) the responses carry the same hardcoded item
  (Detected Meal; rice, chicken, spices; calories 250, protein 18, carbs 30, sugar 2), the
  verdict of that item for the goal, and no allergens.
\<close>

theorem scan_image_ignores_file:
  "scan_image lower fs search user_id goal file1 s =
     scan_image lower fs search user_id goal file2 s \<and>
   (\<exists>r1 s1 r2 s2.
      scan_image lower1 fs1 search1 user_id goal file1 st1 = Inr (r1, s1) \<and>
      scan_image lower2 fs2 search2 user_id goal file2 st2 = Inr (r2, s2) \<and>
      sc_item r1 = sc_item r2 \<and>
      sc_item r1 =
        \<lparr>name = Some ''Detected Meal'', brand = None, barcode = None, image_url = None,
         ingredients_text = Some ''rice, chicken, spices'',
         nutrients =
           Some \<lparr>calories = Some (Finite 250), protein = Some (Finite 18),
                 carbs = Some (Finite 30), sugar = Some (Finite 2), fat = None,
                 sat_fat = None, fiber = None, sodium = None\<rparr>,
         processing_level = None\<rparr> \<and>
      compute_verdict goal stub_item = Inr (sc_verdict r1) \<and>
      sc_verdict r2 = sc_verdict r1 \<and>
      sc_allergens r1 = [] \<and> sc_allergens r2 = [])"
  by (simp add: scan_image_unfold compute_verdict_unfold Let_def stub_item_def [symmetric])

section \<open>Properties of the alternative finder and of the profile handler\<close>

lemma bind_InrE:
  assumes "bind m f = Inr y"
  obtains x where "m = Inr x" and "f x = Inr y"
  using assms by (cases m) (simp_all add: bind_def)
















lemma take1_filter_find:
  "take (Suc 0) (filter P xs) = (case find P xs of None \<Rightarrow> [] | Some x \<Rightarrow> [x])"
  by (induction xs) auto

lemma get_documents_one:
  "get_documents coll flt (Suc 0) s =
     (case find (\<lambda>d. flt (snd d)) (collections s coll) of None \<Rightarrow> [] | Some x \<Rightarrow> [x])"
  by (simp add: get_documents_def take1_filter_find)

lemma find_append_new:
  "find P xs = None \<Longrightarrow> P x \<Longrightarrow> find P (xs @ [x]) = Some x"
  by (induction xs) (auto split: if_splits)

text \<open>
  C8. The profile handler reads or creates by user id. When the collection
  \<open>userprofile\<close> holds a document of the user, the first such document is returned as it
  is and the store is left as it was. When it holds none, the default profile (goal
  balanced, no allergies, no sensitivities, language en) is appended to the collection and
  returned with its new identifier, and a second call with the same user id returns that
  same profile and identifier and changes nothing.
\<close>

theorem get_or_create_profile_read_or_create:
  "(\<forall>doc. find (\<lambda>d. doc_user_id (snd d) = uid) (collections s ''userprofile'') = Some doc \<longrightarrow>
      get_or_create_profile uid s = (doc, s)) \<and>
   (find (\<lambda>d. doc_user_id (snd d) = uid) (collections s ''userprofile'') = None \<longrightarrow>
      (\<exists>i s' p.
         p = \<lparr>up_user_id = uid, up_name = None, up_goal = Balanced, allergies = [],
              sensitivities = [], language = En\<rparr> \<and>
         get_or_create_profile uid s = ((i, ProfileDoc p), s') \<and>
         collections s' ''userprofile'' = collections s ''userprofile'' @ [(i, ProfileDoc p)] \<and>
         get_or_create_profile uid s' = ((i, ProfileDoc p), s')))"
proof (intro conjI allI impI)
  fix doc
  assume "find (\<lambda>d. doc_user_id (snd d) = uid) (collections s ''userprofile'') = Some doc"
  then show "get_or_create_profile uid s = (doc, s)"
    by (simp add: get_or_create_profile_def get_documents_one)
next
  let ?P = "\<lambda>d. doc_user_id (snd d) = uid"
  let ?p = "UserProfile_default uid"
  let ?s' = "snd (create_document ''userprofile'' (ProfileDoc ?p) s)"
  assume none: "find ?P (collections s ''userprofile'') = None"
  have first: "get_or_create_profile uid s = ((next_id s, ProfileDoc ?p), ?s')"
    using none
    by (simp add: get_or_create_profile_def get_documents_one create_document_def Let_def)
  have coll: "collections ?s' ''userprofile'' =
      collections s ''userprofile'' @ [(next_id s, ProfileDoc ?p)]"
    by (simp add: create_document_def)
  have "find ?P (collections ?s' ''userprofile'') = Some (next_id s, ProfileDoc ?p)"
    unfolding coll using none
    by (rule find_append_new) (simp add: UserProfile_default_def)
  then have second: "get_or_create_profile uid ?s' = ((next_id s, ProfileDoc ?p), ?s')"
    by (simp add: get_or_create_profile_def get_documents_one)
  show "\<exists>i s' p.
         p = \<lparr>up_user_id = uid, up_name = None, up_goal = Balanced, allergies = [],
              sensitivities = [], language = En\<rparr> \<and>
         get_or_create_profile uid s = ((i, ProfileDoc p), s') \<and>
         collections s' ''userprofile'' = collections s ''userprofile'' @ [(i, ProfileDoc p)] \<and>
         get_or_create_profile uid s' = ((i, ProfileDoc p), s')"
    using first coll second unfolding UserProfile_default_def by blast
qed



theorem get_or_create_profile_read_or_create_witness:
  "find (\<lambda>d. doc_user_id (snd d) = ''u1'')
     (collections \<lparr>collections = (\<lambda>c. []), next_id = 0\<rparr> ''userprofile'') = None \<and>
   get_or_create_profile ''u1'' \<lparr>collections = (\<lambda>c. []), next_id = 0\<rparr> =
     ((0, ProfileDoc \<lparr>up_user_id = ''u1'', up_name = None, up_goal = Balanced,
                      allergies = [], sensitivities = [], language = En\<rparr>),
      \<lparr>collections = (\<lambda>c. [])(''userprofile'' :=
           [(0, ProfileDoc \<lparr>up_user_id = ''u1'', up_name = None, up_goal = Balanced,
                            allergies = [], sensitivities = [], language = En\<rparr>)]),
       next_id = 1\<rparr>) \<and>
   get_or_create_profile ''u1''
     \<lparr>collections = (\<lambda>c. [])(''userprofile'' :=
          [(0, ProfileDoc \<lparr>up_user_id = ''u1'', up_name = None, up_goal = Balanced,
                           allergies = [], sensitivities = [], language = En\<rparr>)]),
      next_id = 1\<rparr> =
     ((0, ProfileDoc \<lparr>up_user_id = ''u1'', up_name = None, up_goal = Balanced,
                      allergies = [], sensitivities = [], language = En\<rparr>),
      \<lparr>collections = (\<lambda>c. [])(''userprofile'' :=
           [(0, ProfileDoc \<lparr>up_user_id = ''u1'', up_name = None, up_goal = Balanced,
                            allergies = [], sensitivities = [], language = En\<rparr>)]),
       next_id = 1\<rparr>)"
proof -
  let ?p = "\<lparr>up_user_id = ''u1'', up_name = None, up_goal = Balanced,
             allergies = [], sensitivities = [], language = En\<rparr>"
  let ?s0 = "\<lparr>collections = (\<lambda>c. []), next_id = 0\<rparr>"
  let ?s1 = "\<lparr>collections = (\<lambda>c. [])(''userprofile'' := [(0, ProfileDoc ?p)]),
              next_id = 1\<rparr>"
  have h0: "find (\<lambda>d. doc_user_id (snd d) = ''u1'') (collections ?s0 ''userprofile'') = None"
    by simp
  have e0: "get_or_create_profile ''u1'' ?s0 = ((0, ProfileDoc ?p), ?s1)"
    by (simp add: get_or_create_profile_def get_documents_def create_document_def
          UserProfile_default_def Let_def)
  have h1: "find (\<lambda>d. doc_user_id (snd d) = ''u1'') (collections ?s1 ''userprofile'') =
      Some (0, ProfileDoc ?p)"
    by simp
  have e1: "get_or_create_profile ''u1'' ?s1 = ((0, ProfileDoc ?p), ?s1)"
    using get_or_create_profile_read_or_create [of "''u1''" ?s1] h1 by blast
  obtain i s' p where "get_or_create_profile ''u1'' ?s0 = ((i, ProfileDoc p), s')"
    and "get_or_create_profile ''u1'' s' = ((i, ProfileDoc p), s')"
    using get_or_create_profile_read_or_create [of "''u1''" ?s0] h0 by blast
  with e0 have e2: "get_or_create_profile ''u1'' ?s1 = ((0, ProfileDoc ?p), ?s1)"
    by simp
  from h0 e0 e1 e2 show ?thesis
    by simp
qed

section \<open>Properties of the barcode lookup\<close>

lemma bind_InlE:
  assumes "bind m f = Inl e"
  obtains "m = Inl e" | x where "m = Inr x" and "f x = Inl e"
  using assms by (cases m) (simp_all add: bind_def)

lemma bind_Inr_simp: "bind (Inr x) f = f x"
  by (simp add: bind_def)

lemma py_get_dict: "py_get (PDict d) k dflt = Inr (dget d k dflt)"
  by (simp add: py_get_def)

lemma py_get_exn: "py_get v k dflt = Inl e \<Longrightarrow> e = AttributeError \<and> (\<forall>d. v \<noteq> PDict d)"
  by (cases v) (simp_all add: py_get_def)

lemma opt_str_exn: "opt_str v = Inl e \<Longrightarrow> e = ValidationError"
  by (cases v) simp_all

lemma opt_float_exn: "opt_float fs v = Inl e \<Longrightarrow> e = ValidationError"
  by (cases v) (simp_all split: option.splits)

lemma mk_Nutrients_exn: "mk_Nutrients fs d = Inl e \<Longrightarrow> e = ValidationError"
  unfolding mk_Nutrients_def
  by (elim bind_InlE) (simp_all add: opt_float_exn)

lemma opt_Nutrients_exn: "opt_Nutrients fs v = Inl e \<Longrightarrow> e = ValidationError"
  by (cases v) (auto elim!: bind_InlE dest: mk_Nutrients_exn)

lemma mk_ScanItem_exn: "mk_ScanItem fs a1 a2 a3 a4 a5 a6 a7 = Inl e \<Longrightarrow> e = ValidationError"
  unfolding mk_ScanItem_def
  by (elim bind_InlE) (simp_all add: opt_str_exn opt_Nutrients_exn)

lemma mk_Nutrients_fields:
  assumes "mk_Nutrients fs d = Inr n"
  shows "opt_float fs (dget d ''calories'' PNone) = Inr (calories n) \<and>
         opt_float fs (dget d ''protein'' PNone) = Inr (protein n) \<and>
         opt_float fs (dget d ''carbs'' PNone) = Inr (carbs n) \<and>
         opt_float fs (dget d ''sugar'' PNone) = Inr (sugar n) \<and>
         opt_float fs (dget d ''fat'' PNone) = Inr (fat n) \<and>
         opt_float fs (dget d ''sat_fat'' PNone) = Inr (sat_fat n) \<and>
         opt_float fs (dget d ''fiber'' PNone) = Inr (fiber n) \<and>
         opt_float fs (dget d ''sodium'' PNone) = Inr (sodium n)"
  using assms unfolding mk_Nutrients_def
  by (elim bind_InrE) auto

lemma mk_ScanItem_fields:
  assumes "mk_ScanItem fs a1 a2 a3 a4 a5 (PDict nl) a7 = Inr item"
  shows "opt_str a1 = Inr (name item) \<and> opt_str a2 = Inr (brand item) \<and>
         opt_str a3 = Inr (barcode item) \<and> opt_str a4 = Inr (image_url item) \<and>
         opt_str a5 = Inr (ingredients_text item) \<and>
         (\<exists>n. nutrients item = Some n \<and> mk_Nutrients fs nl = Inr n) \<and>
         opt_str a7 = Inr (processing_level item)"
  using assms unfolding mk_ScanItem_def
  by (elim bind_InrE) (auto elim!: bind_InrE)


lemma barcode_lookup_try_product:
  assumes "api code = Body (PDict d)"
    and "py_eq_1 (dget d ''status'' PNone)"
    and "dget d ''product'' (PDict []) = PDict pd"
    and "dget pd ''nutriments'' (PDict []) = PDict nd"
  shows "barcode_lookup_try fs api code =
     mk_ScanItem fs (dget pd ''product_name'' PNone) (dget pd ''brands'' PNone)
       (dget pd ''code'' PNone)
       (py_or (dget pd ''image_front_small_url'' PNone) (dget pd ''image_url'' PNone))
       (dget pd ''ingredients_text'' PNone)
       (PDict [(''calories'', dget nd ''energy-kcal_100g'' PNone),
               (''protein'', dget nd ''proteins_100g'' PNone),
               (''carbs'', dget nd ''carbohydrates_100g'' PNone),
               (''sugar'', dget nd ''sugars_100g'' PNone),
               (''fat'', dget nd ''fat_100g'' PNone),
               (''sat_fat'', dget nd ''saturated-fat_100g'' PNone),
               (''fiber'', dget nd ''fiber_100g'' PNone),
               (''sodium'', dget nd ''sodium_100g'' PNone)])
       (dget pd ''nova_group'' PNone)"
  using assms by (simp add: barcode_lookup_try_def py_get_dict bind_Inr_simp)

lemma barcode_lookup_try_no_product:
  assumes "api code = Body (PDict d)"
    and "py_eq_1 (dget d ''status'' PNone)"
    and "\<forall>pd. dget d ''product'' (PDict []) \<noteq> PDict pd"
  shows "barcode_lookup_try fs api code = Inl AttributeError"
  using assms
  by (cases "dget d ''product'' (PDict [])")
     (simp_all add: barcode_lookup_try_def py_get_dict bind_Inr_simp py_get_def bind_def)

lemma barcode_lookup_try_no_nutriments:
  assumes "api code = Body (PDict d)"
    and "py_eq_1 (dget d ''status'' PNone)"
    and "dget d ''product'' (PDict []) = PDict pd"
    and "\<forall>nd. dget pd ''nutriments'' (PDict []) \<noteq> PDict nd"
  shows "barcode_lookup_try fs api code = Inl AttributeError"
  using assms
  by (cases "dget pd ''nutriments'' (PDict [])")
     (simp_all add: barcode_lookup_try_def py_get_dict bind_Inr_simp py_get_def bind_def)

lemma barcode_lookup_try_not_found:
  "(barcode_lookup_try fs api code = Inl (HTTPException c)) =
   (c = 404 \<and> (\<exists>d. api code = Body (PDict d) \<and> \<not> py_eq_1 (dget d ''status'' PNone)))"
proof (cases "api code")
  case ConnectionFailed
  then show ?thesis by (simp add: barcode_lookup_try_def)
next
  case InvalidJson
  then show ?thesis by (simp add: barcode_lookup_try_def)
next
  case (Body data)
  show ?thesis
  proof (cases "\<exists>d. data = PDict d")
    case False
    with Body show ?thesis
      by (cases data) (simp_all add: barcode_lookup_try_def py_get_def bind_def)
  next
    case True
    then obtain d where d: "data = PDict d" ..
    show ?thesis
    proof (cases "py_eq_1 (dget d ''status'' PNone)")
      case False
      with Body d show ?thesis
        by (auto simp: barcode_lookup_try_def py_get_dict bind_Inr_simp)
    next
      case ok: True
      have "barcode_lookup_try fs api code \<noteq> Inl (HTTPException c)"
      proof (cases "\<exists>pd. dget d ''product'' (PDict []) = PDict pd")
        case False
        with Body d ok have "barcode_lookup_try fs api code = Inl AttributeError"
          by (intro barcode_lookup_try_no_product [where api = api and code = code and d = d])
             simp_all
        then show ?thesis by simp
      next
        case True
        then obtain pd where pd: "dget d ''product'' (PDict []) = PDict pd" ..
        show ?thesis
        proof (cases "\<exists>nd. dget pd ''nutriments'' (PDict []) = PDict nd")
          case False
          with Body d ok pd have "barcode_lookup_try fs api code = Inl AttributeError"
            by (intro barcode_lookup_try_no_nutriments
                  [where api = api and code = code and d = d and pd = pd])
               simp_all
          then show ?thesis by simp
        next
          case True
          then obtain nd where nd: "dget pd ''nutriments'' (PDict []) = PDict nd" ..
          from Body d have b: "api code = Body (PDict d)" by simp
          show ?thesis
            unfolding barcode_lookup_try_product [where api = api and code = code, OF b ok pd nd]
            using mk_ScanItem_exn by fastforce
        qed
      qed
      with Body d ok show ?thesis by simp
    qed
  qed
qed


lemma barcode_lookup_Inl:
  "barcode_lookup_try fs api code = Inl e \<Longrightarrow>
   barcode_lookup fs api code =
     Inl (if e = HTTPException 404 then HTTPException 404 else HTTPException 500)"
proof -
  assume t: "barcode_lookup_try fs api code = Inl e"
  show ?thesis
  proof (cases e)
    case (HTTPException c)
    with t have "c = 404"
      by (simp add: barcode_lookup_try_not_found)
    with t HTTPException show ?thesis
      by (simp add: barcode_lookup_def)
  qed (use t in \<open>simp_all add: barcode_lookup_def\<close>)
qed

lemma barcode_lookup_Inr:
  "(barcode_lookup fs api code = Inr item) = (barcode_lookup_try fs api code = Inr item)"
  by (simp add: barcode_lookup_def split: sum.splits exn.splits)

lemma barcode_lookup_try_success:
  assumes "barcode_lookup_try fs api code = Inr item"
  shows "\<exists>d pd nd.
     api code = Body (PDict d) \<and> py_eq_1 (dget d ''status'' PNone) \<and>
     dget d ''product'' (PDict []) = PDict pd \<and>
     dget pd ''nutriments'' (PDict []) = PDict nd \<and>
     mk_ScanItem fs (dget pd ''product_name'' PNone) (dget pd ''brands'' PNone)
       (dget pd ''code'' PNone)
       (py_or (dget pd ''image_front_small_url'' PNone) (dget pd ''image_url'' PNone))
       (dget pd ''ingredients_text'' PNone)
       (PDict [(''calories'', dget nd ''energy-kcal_100g'' PNone),
               (''protein'', dget nd ''proteins_100g'' PNone),
               (''carbs'', dget nd ''carbohydrates_100g'' PNone),
               (''sugar'', dget nd ''sugars_100g'' PNone),
               (''fat'', dget nd ''fat_100g'' PNone),
               (''sat_fat'', dget nd ''saturated-fat_100g'' PNone),
               (''fiber'', dget nd ''fiber_100g'' PNone),
               (''sodium'', dget nd ''sodium_100g'' PNone)])
       (dget pd ''nova_group'' PNone) = Inr item"
proof (cases "api code")
  case ConnectionFailed
  with assms show ?thesis by (simp add: barcode_lookup_try_def)
next
  case InvalidJson
  with assms show ?thesis by (simp add: barcode_lookup_try_def)
next
  case (Body data)
  have "\<exists>d. data = PDict d"
    using assms Body by (cases data) (simp_all add: barcode_lookup_try_def py_get_def bind_def)
  then obtain d where d: "data = PDict d" ..
  with Body have b: "api code = Body (PDict d)" by simp
  have ok: "py_eq_1 (dget d ''status'' PNone)"
    using assms b
    by (cases "py_eq_1 (dget d ''status'' PNone)")
       (simp_all add: barcode_lookup_try_def py_get_dict bind_Inr_simp)
  have "\<exists>pd. dget d ''product'' (PDict []) = PDict pd"
  proof (rule ccontr)
    assume "\<not> ?thesis"
    then have "barcode_lookup_try fs api code = Inl AttributeError"
      using b ok
      by (intro barcode_lookup_try_no_product [where api = api and code = code and d = d])
         simp_all
    with assms show False by simp
  qed
  then obtain pd where pd: "dget d ''product'' (PDict []) = PDict pd" ..
  have "\<exists>nd. dget pd ''nutriments'' (PDict []) = PDict nd"
  proof (rule ccontr)
    assume "\<not> ?thesis"
    then have "barcode_lookup_try fs api code = Inl AttributeError"
      using b ok pd
      by (intro barcode_lookup_try_no_nutriments
            [where api = api and code = code and d = d and pd = pd])
         simp_all
    with assms show False by simp
  qed
  then obtain nd where nd: "dget pd ''nutriments'' (PDict []) = PDict nd" ..
  from assms have "mk_ScanItem fs (dget pd ''product_name'' PNone) (dget pd ''brands'' PNone)
       (dget pd ''code'' PNone)
       (py_or (dget pd ''image_front_small_url'' PNone) (dget pd ''image_url'' PNone))
       (dget pd ''ingredients_text'' PNone)
       (PDict [(''calories'', dget nd ''energy-kcal_100g'' PNone),
               (''protein'', dget nd ''proteins_100g'' PNone),
               (''carbs'', dget nd ''carbohydrates_100g'' PNone),
               (''sugar'', dget nd ''sugars_100g'' PNone),
               (''fat'', dget nd ''fat_100g'' PNone),
               (''sat_fat'', dget nd ''saturated-fat_100g'' PNone),
               (''fiber'', dget nd ''fiber_100g'' PNone),
               (''sodium'', dget nd ''sodium_100g'' PNone)])
       (dget pd ''nova_group'' PNone) = Inr item"
    unfolding barcode_lookup_try_product [where api = api and code = code, OF b ok pd nd] .
  with b ok pd nd show ?thesis
    by blast
qed

lemma barcode_lookup_try_mapping:
  assumes "barcode_lookup_try fs api code = Inr item"
  shows "\<exists>d pd nd n.
     api code = Body (PDict d) \<and> py_eq_1 (dget d ''status'' PNone) \<and>
     dget d ''product'' (PDict []) = PDict pd \<and>
     dget pd ''nutriments'' (PDict []) = PDict nd \<and>
     nutrients item = Some n \<and>
     opt_float fs (dget nd ''energy-kcal_100g'' PNone) = Inr (calories n) \<and>
     opt_float fs (dget nd ''proteins_100g'' PNone) = Inr (protein n) \<and>
     opt_float fs (dget nd ''carbohydrates_100g'' PNone) = Inr (carbs n) \<and>
     opt_float fs (dget nd ''sugars_100g'' PNone) = Inr (sugar n) \<and>
     opt_float fs (dget nd ''fat_100g'' PNone) = Inr (fat n) \<and>
     opt_float fs (dget nd ''saturated-fat_100g'' PNone) = Inr (sat_fat n) \<and>
     opt_float fs (dget nd ''fiber_100g'' PNone) = Inr (fiber n) \<and>
     opt_float fs (dget nd ''sodium_100g'' PNone) = Inr (sodium n)"
proof -
  from barcode_lookup_try_success [OF assms] obtain d pd nd where
    b: "api code = Body (PDict d)" "py_eq_1 (dget d ''status'' PNone)"
       "dget d ''product'' (PDict []) = PDict pd"
       "dget pd ''nutriments'' (PDict []) = PDict nd"
    and mk: "mk_ScanItem fs (dget pd ''product_name'' PNone) (dget pd ''brands'' PNone)
       (dget pd ''code'' PNone)
       (py_or (dget pd ''image_front_small_url'' PNone) (dget pd ''image_url'' PNone))
       (dget pd ''ingredients_text'' PNone)
       (PDict [(''calories'', dget nd ''energy-kcal_100g'' PNone),
               (''protein'', dget nd ''proteins_100g'' PNone),
               (''carbs'', dget nd ''carbohydrates_100g'' PNone),
               (''sugar'', dget nd ''sugars_100g'' PNone),
               (''fat'', dget nd ''fat_100g'' PNone),
               (''sat_fat'', dget nd ''saturated-fat_100g'' PNone),
               (''fiber'', dget nd ''fiber_100g'' PNone),
               (''sodium'', dget nd ''sodium_100g'' PNone)])
       (dget pd ''nova_group'' PNone) = Inr item"
    by (elim exE conjE)
  from mk_ScanItem_fields [OF mk] obtain n where
    n: "nutrients item = Some n"
    and nn: "mk_Nutrients fs [(''calories'', dget nd ''energy-kcal_100g'' PNone),
               (''protein'', dget nd ''proteins_100g'' PNone),
               (''carbs'', dget nd ''carbohydrates_100g'' PNone),
               (''sugar'', dget nd ''sugars_100g'' PNone),
               (''fat'', dget nd ''fat_100g'' PNone),
               (''sat_fat'', dget nd ''saturated-fat_100g'' PNone),
               (''fiber'', dget nd ''fiber_100g'' PNone),
               (''sodium'', dget nd ''sodium_100g'' PNone)] = Inr n"
    by (elim exE conjE)
  from mk_Nutrients_fields [OF nn] have
    "opt_float fs (dget nd ''energy-kcal_100g'' PNone) = Inr (calories n) \<and>
     opt_float fs (dget nd ''proteins_100g'' PNone) = Inr (protein n) \<and>
     opt_float fs (dget nd ''carbohydrates_100g'' PNone) = Inr (carbs n) \<and>
     opt_float fs (dget nd ''sugars_100g'' PNone) = Inr (sugar n) \<and>
     opt_float fs (dget nd ''fat_100g'' PNone) = Inr (fat n) \<and>
     opt_float fs (dget nd ''saturated-fat_100g'' PNone) = Inr (sat_fat n) \<and>
     opt_float fs (dget nd ''fiber_100g'' PNone) = Inr (fiber n) \<and>
     opt_float fs (dget nd ''sodium_100g'' PNone) = Inr (sodium n)"
    by (simp add: dget_def)
  with b n show ?thesis
    by blast
qed


text \<open>
  C5. For every barcode the lookup handler fails with status 404 exactly when the product
  collaborator answers with a dictionary whose \<open>status\<close> is not equal to 1 (an absent
  status included). Every other exception of the body (a failed request, an undecodable
  body, a value that is no dictionary where one is read, a payload the schema layer
  refuses) becomes status 500, and a 404 raised by the body stays a 404. On success the
  item's nutrients record is there and each of its eight fields is the validated value of
  its own per-100g key of \<open>nutriments\<close>, where an absent key validates to \<open>None\<close>.
\<close>

theorem barcode_lookup_signals:
  "(barcode_lookup fs api code = Inl (HTTPException 404)) =
     (\<exists>d. api code = Body (PDict d) \<and> \<not> py_eq_1 (dget d ''status'' PNone)) \<and>
   (\<forall>e. barcode_lookup_try fs api code = Inl e \<longrightarrow>
        barcode_lookup fs api code =
          Inl (if e = HTTPException 404 then HTTPException 404 else HTTPException 500)) \<and>
   (\<forall>e. barcode_lookup fs api code = Inl e \<longrightarrow>
        e = HTTPException 404 \<or> e = HTTPException 500) \<and>
   (api code = ConnectionFailed \<or> api code = InvalidJson \<longrightarrow>
      barcode_lookup fs api code = Inl (HTTPException 500)) \<and>
   (\<forall>item. barcode_lookup fs api code = Inr item \<longrightarrow>
      (\<exists>d pd nd n.
         api code = Body (PDict d) \<and> py_eq_1 (dget d ''status'' PNone) \<and>
         dget d ''product'' (PDict []) = PDict pd \<and>
         dget pd ''nutriments'' (PDict []) = PDict nd \<and>
         nutrients item = Some n \<and>
         opt_float fs (dget nd ''energy-kcal_100g'' PNone) = Inr (calories n) \<and>
         opt_float fs (dget nd ''proteins_100g'' PNone) = Inr (protein n) \<and>
         opt_float fs (dget nd ''carbohydrates_100g'' PNone) = Inr (carbs n) \<and>
         opt_float fs (dget nd ''sugars_100g'' PNone) = Inr (sugar n) \<and>
         opt_float fs (dget nd ''fat_100g'' PNone) = Inr (fat n) \<and>
         opt_float fs (dget nd ''saturated-fat_100g'' PNone) = Inr (sat_fat n) \<and>
         opt_float fs (dget nd ''fiber_100g'' PNone) = Inr (fiber n) \<and>
         opt_float fs (dget nd ''sodium_100g'' PNone) = Inr (sodium n)))"
proof (intro conjI allI impI)
  show "(barcode_lookup fs api code = Inl (HTTPException 404)) =
     (\<exists>d. api code = Body (PDict d) \<and> \<not> py_eq_1 (dget d ''status'' PNone))"
  proof (cases "barcode_lookup_try fs api code")
    case (Inl e)
    have "(barcode_lookup fs api code = Inl (HTTPException 404)) = (e = HTTPException 404)"
      using barcode_lookup_Inl [OF Inl] by simp
    also have "\<dots> = (barcode_lookup_try fs api code = Inl (HTTPException 404))"
      using Inl by simp
    finally show ?thesis
      by (simp add: barcode_lookup_try_not_found)
  next
    case (Inr item)
    then have "barcode_lookup fs api code = Inr item"
      by (simp add: barcode_lookup_Inr)
    moreover from Inr have "barcode_lookup_try fs api code \<noteq> Inl (HTTPException 404)"
      by simp
    ultimately show ?thesis
      by (simp add: barcode_lookup_try_not_found)
  qed
next
  fix e
  assume "barcode_lookup_try fs api code = Inl e"
  then show "barcode_lookup fs api code =
      Inl (if e = HTTPException 404 then HTTPException 404 else HTTPException 500)"
    by (rule barcode_lookup_Inl)
next
  fix e
  assume a: "barcode_lookup fs api code = Inl e"
  show "e = HTTPException 404 \<or> e = HTTPException 500"
  proof (cases "barcode_lookup_try fs api code")
    case (Inl e')
    from barcode_lookup_Inl [OF Inl] a show ?thesis
      by (simp split: if_splits)
  next
    case (Inr item)
    then have "barcode_lookup fs api code = Inr item"
      by (simp add: barcode_lookup_Inr)
    with a show ?thesis by simp
  qed
next
  assume "api code = ConnectionFailed \<or> api code = InvalidJson"
  then show "barcode_lookup fs api code = Inl (HTTPException 500)"
    by (auto simp: barcode_lookup_def barcode_lookup_try_def)
next
  fix item
  assume "barcode_lookup fs api code = Inr item"
  then have "barcode_lookup_try fs api code = Inr item"
    by (simp add: barcode_lookup_Inr)
  then show "\<exists>d pd nd n.
         api code = Body (PDict d) \<and> py_eq_1 (dget d ''status'' PNone) \<and>
         dget d ''product'' (PDict []) = PDict pd \<and>
         dget pd ''nutriments'' (PDict []) = PDict nd \<and>
         nutrients item = Some n \<and>
         opt_float fs (dget nd ''energy-kcal_100g'' PNone) = Inr (calories n) \<and>
         opt_float fs (dget nd ''proteins_100g'' PNone) = Inr (protein n) \<and>
         opt_float fs (dget nd ''carbohydrates_100g'' PNone) = Inr (carbs n) \<and>
         opt_float fs (dget nd ''sugars_100g'' PNone) = Inr (sugar n) \<and>
         opt_float fs (dget nd ''fat_100g'' PNone) = Inr (fat n) \<and>
         opt_float fs (dget nd ''saturated-fat_100g'' PNone) = Inr (sat_fat n) \<and>
         opt_float fs (dget nd ''fiber_100g'' PNone) = Inr (fiber n) \<and>
         opt_float fs (dget nd ''sodium_100g'' PNone) = Inr (sodium n)"
    by (rule barcode_lookup_try_mapping)
qed

theorem barcode_lookup_signals_witness:
  "barcode_lookup (\<lambda>s. None)
     (\<lambda>c. if c = ''0'' then Body (PDict [(''status'', PInt 0)]) else ConnectionFailed)
     ''0'' = Inl (HTTPException 404) \<and>
   barcode_lookup_try (\<lambda>s. None)
     (\<lambda>c. if c = ''0'' then Body (PDict [(''status'', PInt 0)]) else ConnectionFailed)
     ''7'' = Inl RequestException \<and>
   barcode_lookup (\<lambda>s. None)
     (\<lambda>c. if c = ''0'' then Body (PDict [(''status'', PInt 0)]) else ConnectionFailed)
     ''7'' = Inl (HTTPException 500) \<and>
   barcode_lookup (\<lambda>s. None)
     (\<lambda>c. Body (PDict [(''status'', PInt 1),
        (''product'', PDict [(''product_name'', PStr ''Spread''),
           (''nutriments'', PDict [(''sugars_100g'', PFloat (Finite 56)),
                                  (''energy-kcal_100g'', PInt 539)])])]))
     ''3017620422003'' =
     Inr \<lparr>name = Some ''Spread'', brand = None, barcode = None, image_url = None,
          ingredients_text = None,
          nutrients = Some \<lparr>calories = Some (Finite 539), protein = None, carbs = None,
            sugar = Some (Finite 56), fat = None, sat_fat = None, fiber = None,
            sodium = None\<rparr>,
          processing_level = None\<rparr> \<and>
   opt_float (\<lambda>s. None)
     (dget [(''sugars_100g'', PFloat (Finite 56)), (''energy-kcal_100g'', PInt 539)]
        ''sugars_100g'' PNone) = Inr (Some (Finite 56))"
proof -
  let ?fs = "\<lambda>s::string. None :: pyfloat option"
  let ?api1 = "\<lambda>c. if c = ''0'' then Body (PDict [(''status'', PInt 0)]) else ConnectionFailed"
  let ?nd = "[(''sugars_100g'', PFloat (Finite 56)), (''energy-kcal_100g'', PInt 539)]"
  let ?api2 = "\<lambda>c::string. Body (PDict [(''status'', PInt 1),
        (''product'', PDict [(''product_name'', PStr ''Spread''), (''nutriments'', PDict ?nd)])])"
  let ?item = "\<lparr>name = Some ''Spread'', brand = None, barcode = None, image_url = None,
          ingredients_text = None,
          nutrients = Some \<lparr>calories = Some (Finite 539), protein = None, carbs = None,
            sugar = Some (Finite 56), fat = None, sat_fat = None, fiber = None,
            sodium = None\<rparr>,
          processing_level = None\<rparr>"
  have h1: "\<exists>d. ?api1 ''0'' = Body (PDict d) \<and> \<not> py_eq_1 (dget d ''status'' PNone)"
    by (simp add: dget_def)
  have c1: "barcode_lookup ?fs ?api1 ''0'' = Inl (HTTPException 404)"
    using barcode_lookup_signals [of ?fs ?api1 "''0''"] h1 by blast
  have h2: "barcode_lookup_try ?fs ?api1 ''7'' = Inl RequestException"
    by (simp add: barcode_lookup_try_def)
  have c2: "barcode_lookup ?fs ?api1 ''7'' =
      Inl (if RequestException = HTTPException 404 then HTTPException 404 else HTTPException 500)"
    using barcode_lookup_signals [of ?fs ?api1 "''7''"] h2 by blast
  have h3: "barcode_lookup ?fs ?api2 ''3017620422003'' = Inr ?item"
    by (simp add: barcode_lookup_def barcode_lookup_try_def py_get_def dget_def bind_def
          mk_ScanItem_def mk_Nutrients_def py_or_def)
  obtain d pd nd n where
    m: "?api2 ''3017620422003'' = Body (PDict d)"
       "dget d ''product'' (PDict []) = PDict pd"
       "dget pd ''nutriments'' (PDict []) = PDict nd"
       "nutrients ?item = Some n"
       "opt_float ?fs (dget nd ''sugars_100g'' PNone) = Inr (sugar n)"
    using barcode_lookup_signals [of ?fs ?api2 "''3017620422003''"] h3 by blast
  from m(1) have "d = [(''status'', PInt 1),
        (''product'', PDict [(''product_name'', PStr ''Spread''), (''nutriments'', PDict ?nd)])]"
    by simp
  with m(2) have "pd = [(''product_name'', PStr ''Spread''), (''nutriments'', PDict ?nd)]"
    by (simp add: dget_def)
  with m(3) have "nd = ?nd"
    by (simp add: dget_def)
  moreover from m(4) have "sugar n = Some (Finite 56)"
    by auto
  ultimately have c3: "opt_float ?fs (dget ?nd ''sugars_100g'' PNone) = Inr (Some (Finite 56))"
    using m(5) by simp
  from c1 h2 c2 h3 c3 show ?thesis
    by simp
qed

end
